theory Spec2Isabelle
  imports Main
begin

section \<open>Data model of blaseball.go\<close>

text \<open>
  The structs of the reference-data update. A Go \<^verbatim>\<open>string\<close> is a byte sequence, here
  \<^typ>\<open>string\<close>; a slice is a list (a nil slice and an empty one are both \<^term>\<open>[]\<close>: the
  program only ranges over them); the \<^verbatim>\<open>int\<close> counters are only stored, never computed
  with, so they are \<^typ>\<open>int\<close>.
\<close>

record Team =
  Lineup :: "string list"
  Rotation :: "string list"
  Bullpen :: "string list"
  Bench :: "string list"
  SeasonAttributes :: "string list"
  PermanentAttributes :: "string list"
  ID :: string
  FullName :: string
  Location :: string
  MainColor :: string
  Nickname :: string
  SecondaryColor :: string
  Shorthand :: string
  Emoji :: string
  Slogan :: string
  ShameRuns :: int
  TotalShames :: int
  TotalShamings :: int
  SeasonShames :: int
  SeasonShamings :: int
  Championships :: int

record SubLeague =
  Divisions :: "string list"
  ID :: string
  Name :: string

record Division =
  Teams :: "string list"
  ID :: string
  Name :: string

record League =
  Subleagues :: "string list"
  ID :: string
  Name :: string
  Tiebreakers :: string

text \<open>
  \<^verbatim>\<open>LeagueData\<close> holds slices of pointers (\<^verbatim>\<open>[]*Team\<close> and so on). A pointer may be nil
  (the JSON body \<^verbatim>\<open>{"teams":[null]}\<close> decodes to one), so an element is an option and
  \<^term>\<open>None\<close> is the nil pointer. Every decoded struct is freshly allocated and never
  written afterwards, so a non-nil pointer is modelled by the value it points to.
\<close>

record LeagueData =
  Teams :: "Team option list"
  SubLeagues :: "SubLeague option list"
  Divisions :: "Division option list"
  Leagues :: "League option list"

text \<open>
  \<^verbatim>\<open>NextUpdate\<close> returns an \<^verbatim>\<open>interface{}\<close> whose dynamic type is \<^verbatim>\<open>*LeagueData\<close> or
  \<^verbatim>\<open>*GameData\<close>. No field of \<^verbatim>\<open>GameData\<close> is ever read by the program, so its content
  is the type parameter \<open>'g\<close>.
\<close>

datatype 'g update = LeagueDataUpdate LeagueData | GameDataUpdate 'g

text \<open>
  The error values that reach the update loop: a \<^verbatim>\<open>*websocket.CloseError\<close> with its code
  and text, any other error of \<^verbatim>\<open>ReadMessage\<close>, an \<^verbatim>\<open>errors.New\<close> string, and the error
  of \<^verbatim>\<open>json.Unmarshal\<close>.
\<close>

datatype error =
  CloseError int string
| ReadError string
| ErrorsNew string
| UnmarshalError string

datatype messageType = TextMessage | BinaryMessage

text \<open>What one call of \<^verbatim>\<open>conn.ReadMessage()\<close> returns: an error, or a type and a payload.\<close>

type_synonym readResult = "error + messageType \<times> string"

section \<open>Library functions used by the program\<close>

text \<open>\<^verbatim>\<open>bytes.HasPrefix\<close>, \<^verbatim>\<open>bytes.TrimPrefix\<close>, \<^verbatim>\<open>bytes.HasSuffix\<close>, \<^verbatim>\<open>bytes.TrimSuffix\<close>.\<close>

definition HasPrefix :: "string \<Rightarrow> string \<Rightarrow> bool" where
  "HasPrefix s p = (length p \<le> length s \<and> take (length p) s = p)"

definition TrimPrefix :: "string \<Rightarrow> string \<Rightarrow> string" where
  "TrimPrefix s p = (if HasPrefix s p then drop (length p) s else s)"

definition HasSuffix :: "string \<Rightarrow> string \<Rightarrow> bool" where
  "HasSuffix s suf = (length suf \<le> length s \<and> drop (length s - length suf) s = suf)"

definition TrimSuffix :: "string \<Rightarrow> string \<Rightarrow> string" where
  "TrimSuffix s suf = (if HasSuffix s suf then take (length s - length suf) s else s)"

text \<open>
  \<^verbatim>\<open>websocket.IsCloseError(err error, codes ...int)\<close> of gorilla/websocket, which its
  documentation describes as returning whether the error is a \<^verbatim>\<open>*CloseError\<close> with one of
  the specified codes: it looks for the code of the error among \<open>codes\<close>, and is false
  for an error of any other type.
\<close>

definition IsCloseError :: "error \<Rightarrow> int list \<Rightarrow> bool" where
  "IsCloseError err codes =
     (case err of CloseError code txt \<Rightarrow> code \<in> set codes | _ \<Rightarrow> False)"

section \<open>The envelope decoder\<close>

definition leagueDataPrefix :: string where
  \<open>leagueDataPrefix = ''"leagueDataUpdate",''\<close>

definition gameDataPrefix :: string where
  \<open>gameDataPrefix = ''"gameDataUpdate",''\<close>

text \<open>
  \<^verbatim>\<open>NextUpdate\<close>, given what \<^verbatim>\<open>ReadMessage\<close> returned. The two calls of \<^verbatim>\<open>json.Unmarshal\<close>
  (into a zero \<^verbatim>\<open>LeagueData\<close> and into a zero \<^verbatim>\<open>GameData\<close>) are the parameters
  \<open>unmarshalLeagueData\<close> and \<open>unmarshalGameData\<close>: each returns the error text or the
  filled struct. Lengths are Go \<^verbatim>\<open>int\<close>s: \<^verbatim>\<open>oldLen-len(prefix)\<close> is negative for a short
  message, so the comparison is made in \<^typ>\<open>int\<close>.
\<close>

definition NextUpdate ::
  "(string \<Rightarrow> string + LeagueData) \<Rightarrow> (string \<Rightarrow> string + 'g) \<Rightarrow> readResult \<Rightarrow> error + 'g update"
where
  "NextUpdate unmarshalLeagueData unmarshalGameData r =
     (case r of
        Inl err \<Rightarrow> Inl err
      | Inr (t, msg) \<Rightarrow>
          if t \<noteq> TextMessage then Inl (ErrorsNew ''unsupported websocket message type'')
          else
            let msg1 = TrimPrefix msg ''42['';
                oldLen = int (length msg1);
                msg2 = TrimPrefix msg1 leagueDataPrefix
            in
              if int (length msg2) = oldLen - int (length leagueDataPrefix) then
                (case unmarshalLeagueData (TrimSuffix msg2 '']'') of
                   Inl e \<Rightarrow> Inl (UnmarshalError e)
                 | Inr leagueData \<Rightarrow> Inr (LeagueDataUpdate leagueData))
              else
                let msg3 = TrimPrefix msg2 gameDataPrefix
                in
                  if int (length msg3) = oldLen - int (length gameDataPrefix) then
                    (case unmarshalGameData (TrimSuffix msg3 '']'') of
                       Inl e \<Rightarrow> Inl (UnmarshalError e)
                     | Inr gameData \<Rightarrow> Inr (GameDataUpdate gameData))
                  else Inl (ErrorsNew ''unrecognized websocket data''))"

text \<open>
  The zero value \<^verbatim>\<open>LeagueData{}\<close>, and a decoder for evaluating concrete frames. It
  stands for \<^verbatim>\<open>json.Unmarshal\<close> on the four bodies it is applied to below, where it
  returns what \<^verbatim>\<open>json.Unmarshal\<close> returns: the empty object and the serialization of the
  zero value leave every field at its zero value, an object followed by a bracket is
  rejected, and so is a lone opening brace.
\<close>

definition zeroLeagueData :: LeagueData where
  "zeroLeagueData = \<lparr>Teams = [], SubLeagues = [], LeagueData.Divisions = [], Leagues = []\<rparr>"

definition unmarshalZero :: "'a \<Rightarrow> string \<Rightarrow> string + 'a" where
  \<open>unmarshalZero zero body =
     (if body = ''{}'' \<or> body = ''{"teams":null,"subleagues":null,"divisions":null,"leagues":null}''
      then Inr zero
      else if body = ''{}]'' then Inl ''invalid character ']' after top-level value''
      else Inl ''unexpected end of JSON input'')\<close>

section \<open>The entity maps and the update loop of main\<close>

text \<open>The four maps created at the start of \<^verbatim>\<open>main\<close>.\<close>

record store =
  teamsMap :: "string \<rightharpoonup> Team"
  subLeaguesMap :: "string \<rightharpoonup> SubLeague"
  divisionsMap :: "string \<rightharpoonup> Division"
  leaguesMap :: "string \<rightharpoonup> League"

definition emptyStore :: store where
  "emptyStore = \<lparr>teamsMap = Map.empty, subLeaguesMap = Map.empty,
                  divisionsMap = Map.empty, leaguesMap = Map.empty\<rparr>"

datatype panic = NilPointerDereference

text \<open>
  One of the four range loops, \<^verbatim>\<open>for _, x := range xs { m[x.ID] = x }\<close>, with the field
  read \<^verbatim>\<open>x.ID\<close> as the parameter \<open>key\<close>. Reading the field through a nil pointer panics;
  nothing recovers the panic, so the goroutine and the process end there.
\<close>

fun mergeByID :: "('a \<Rightarrow> string) \<Rightarrow> (string \<rightharpoonup> 'a) \<Rightarrow> 'a option list \<Rightarrow> panic + (string \<rightharpoonup> 'a)" where
  "mergeByID key m [] = Inr m"
| "mergeByID key m (None # xs) = Inl NilPointerDereference"
| "mergeByID key m (Some x # xs) = mergeByID key (m(key x \<mapsto> x)) xs"

text \<open>The body of \<^verbatim>\<open>case *LeagueData\<close>: the four loops, one after the other.\<close>

definition mergeLeagueData :: "store \<Rightarrow> LeagueData \<Rightarrow> panic + store" where
  "mergeLeagueData s data =
     (case mergeByID Team.ID (teamsMap s) (Teams data) of
        Inl p \<Rightarrow> Inl p
      | Inr tm \<Rightarrow>
     (case mergeByID SubLeague.ID (subLeaguesMap s) (SubLeagues data) of
        Inl p \<Rightarrow> Inl p
      | Inr sm \<Rightarrow>
     (case mergeByID Division.ID (divisionsMap s) (LeagueData.Divisions data) of
        Inl p \<Rightarrow> Inl p
      | Inr dm \<Rightarrow>
     (case mergeByID League.ID (leaguesMap s) (Leagues data) of
        Inl p \<Rightarrow> Inl p
      | Inr lm \<Rightarrow>
          Inr \<lparr>teamsMap = tm, subLeaguesMap = sm, divisionsMap = dm, leaguesMap = lm\<rparr>))))"

text \<open>
  Standard output is the list of the strings written, in order; \<open>ErrorText err\<close> stands
  for the text \<^verbatim>\<open>err.Error()\<close>.
\<close>

datatype printed = Text string | ErrorText error

text \<open>
  One pass through the body of the \<^verbatim>\<open>for\<close> loop, given what \<^verbatim>\<open>ReadMessage\<close> returns in
  it: the pass ends in \<^verbatim>\<open>continue\<close> (or the end of the body), in \<^verbatim>\<open>return\<close>, or in a panic.
  \<^verbatim>\<open>websocket.IsCloseError(err)\<close> is called with no codes. The \<^verbatim>\<open>default\<close> branch of the
  type switch is not reached: \<^verbatim>\<open>NextUpdate\<close> returns no third type with a nil error.
\<close>

datatype control = Continue "store \<times> printed list" | Return "store \<times> printed list" | Panic panic

definition iteration ::
  "(string \<Rightarrow> string + LeagueData) \<Rightarrow> (string \<Rightarrow> string + 'g) \<Rightarrow> store \<times> printed list \<Rightarrow> readResult \<Rightarrow> control"
where
  "iteration unmarshalLeagueData unmarshalGameData st r =
     (case st of (s, out) \<Rightarrow>
        let out1 = out @ [Text ''Waiting for update...\<newline>'']
        in
          (case NextUpdate unmarshalLeagueData unmarshalGameData r of
             Inl err \<Rightarrow>
               (let out2 = out1 @ [ErrorText err, Text ''\<newline>\<newline>'']
                in if IsCloseError err [] then Return (s, out2) else Continue (s, out2))
           | Inr upd \<Rightarrow>
               (let out2 = out1 @ [Text ''Update type: '']
                in
                  (case upd of
                     LeagueDataUpdate data \<Rightarrow>
                       (case mergeLeagueData s data of
                          Inl p \<Rightarrow> Panic p
                        | Inr s' \<Rightarrow>
                            Continue (s', out2 @ [Text ''LeagueData\<newline>'', Text ''\<newline>'']))
                   | GameDataUpdate gameData \<Rightarrow>
                       Continue (s, out2 @ [Text ''GameData\<newline>'', Text ''\<newline>''])))))"

text \<open>
  The loop over the results of the successive reads. When the list is used up the loop
  is still running (\<open>Continue\<close>), about to read again.
\<close>

fun updateLoop ::
  "(string \<Rightarrow> string + LeagueData) \<Rightarrow> (string \<Rightarrow> string + 'g) \<Rightarrow> store \<times> printed list \<Rightarrow> readResult list \<Rightarrow> control"
where
  "updateLoop uL uG st [] = Continue st"
| "updateLoop uL uG st (r # rs) =
     (case iteration uL uG st r of
        Continue st' \<Rightarrow> updateLoop uL uG st' rs
      | Return st' \<Rightarrow> Return st'
      | Panic p \<Rightarrow> Panic p)"

text \<open>The zero value \<^verbatim>\<open>Team{}\<close>, from which concrete teams are written.\<close>

definition zeroTeam :: Team where
  "zeroTeam = \<lparr>Lineup = [], Rotation = [], Bullpen = [], Bench = [], SeasonAttributes = [],
     PermanentAttributes = [], Team.ID = [], FullName = [], Location = [], MainColor = [],
     Nickname = [], SecondaryColor = [], Shorthand = [], Emoji = [], Slogan = [],
     ShameRuns = 0, TotalShames = 0, TotalShamings = 0, SeasonShames = 0,
     SeasonShamings = 0, Championships = 0\<rparr>"

text \<open>Concrete teams, sub-leagues, divisions, leagues, snapshots and a store.\<close>

definition teamNamed :: "string \<Rightarrow> string \<Rightarrow> Team" where
  "teamNamed i n = zeroTeam\<lparr>Team.ID := i, FullName := n\<rparr>"

definition oneTeam :: "Team \<Rightarrow> LeagueData" where
  "oneTeam t = zeroLeagueData\<lparr>Teams := [Some t]\<rparr>"

definition subLeagueNamed :: "string \<Rightarrow> string \<Rightarrow> SubLeague" where
  "subLeagueNamed i n = \<lparr>SubLeague.Divisions = [], SubLeague.ID = i, SubLeague.Name = n\<rparr>"

definition divisionNamed :: "string \<Rightarrow> string \<Rightarrow> Division" where
  "divisionNamed i n = \<lparr>Division.Teams = [], Division.ID = i, Division.Name = n\<rparr>"

definition leagueNamed :: "string \<Rightarrow> string \<Rightarrow> League" where
  "leagueNamed i n = \<lparr>Subleagues = [], League.ID = i, League.Name = n, Tiebreakers = []\<rparr>"

definition sampleStore :: store where
  "sampleStore =
     \<lparr>teamsMap = [''T1'' \<mapsto> teamNamed ''T1'' ''Mild High Horses''],
      subLeaguesMap = [''S1'' \<mapsto> subLeagueNamed ''S1'' ''Good''],
      divisionsMap = [''D1'' \<mapsto> divisionNamed ''D1'' ''Lawful Good''],
      leaguesMap = [''L1'' \<mapsto> leagueNamed ''L1'' ''Internet League Blaseball'']\<rparr>"

definition duplicates :: LeagueData where
  "duplicates =
     \<lparr>Teams = [Some (teamNamed ''T1'' ''Mild High Horses''), Some (teamNamed ''T1'' ''Hawai'i Fridays'')],
      SubLeagues = [Some (subLeagueNamed ''S1'' ''Good''), Some (subLeagueNamed ''S1'' ''Evil'')],
      LeagueData.Divisions = [Some (divisionNamed ''D1'' ''Lawful Good''), Some (divisionNamed ''D1'' ''Chaotic Good'')],
      Leagues = [Some (leagueNamed ''L1'' ''Internet League Blaseball''), Some (leagueNamed ''L1'' ''ILB'')]\<rparr>"

text \<open>
  \<^verbatim>\<open>GameData\<close>, for evaluating concrete live-game frames. Its fields are pointers and
  slices of pointers to the structs \<^verbatim>\<open>Sim\<close>, \<^verbatim>\<open>Season\<close>, \<^verbatim>\<open>Standings\<close>, \<^verbatim>\<open>Schedule\<close>,
  \<^verbatim>\<open>TomorrowSchedule\<close> and \<^verbatim>\<open>PostSeason\<close>, which hold times, floats and untyped values; the
  program reads none of their fields, so the structs are left unspecified and only nil
  pointers are written out.
\<close>

typedecl Sim
typedecl Season
typedecl Standings
typedecl Schedule
typedecl TomorrowSchedule
typedecl PostSeason

record GameData =
  Sim :: "Sim option"
  Season :: "Season option"
  Standsings :: "Standings option"
  Schedules :: "Schedule option list"
  TomorrowsSchedules :: "TomorrowSchedule option list"
  PostSeason :: "PostSeason option"

definition zeroGameData :: GameData where
  "zeroGameData = \<lparr>Sim = None, Season = None, Standsings = None, Schedules = [],
     TomorrowsSchedules = [], PostSeason = None\<rparr>"

text \<open>
  A decoder for two live-game bodies, on which it returns what \<^verbatim>\<open>json.Unmarshal\<close> returns:
  the empty object leaves every field nil, and \<^verbatim>\<open>{"schedule":[null]}\<close> gives a schedule
  slice that holds one nil pointer.
\<close>

definition unmarshalGameSample :: "string \<Rightarrow> string + GameData" where
  \<open>unmarshalGameSample body =
     (if body = ''{}'' then Inr zeroGameData
      else if body = ''{"schedule":[null]}'' then Inr (zeroGameData\<lparr>Schedules := [None]\<rparr>)
      else Inl ''unexpected end of JSON input'')\<close>



section \<open>Facts about the library functions and the envelope decoder\<close>

lemma length_leagueDataPrefix: "length leagueDataPrefix = 19"
  by (simp add: leagueDataPrefix_def)

lemma length_gameDataPrefix: "length gameDataPrefix = 17"
  by (simp add: gameDataPrefix_def)

lemma TrimPrefix_no_match: "\<not> HasPrefix s p \<Longrightarrow> TrimPrefix s p = s"
  by (simp add: TrimPrefix_def)

lemma TrimPrefix_match: "HasPrefix s p \<Longrightarrow> TrimPrefix s p = drop (length p) s"
  by (simp add: TrimPrefix_def)

lemma length_TrimPrefix:
  "int (length (TrimPrefix s p)) = int (length s) - int (length p) \<longleftrightarrow> HasPrefix s p \<or> p = []"
  by (auto simp: TrimPrefix_def HasPrefix_def)

lemma HasPrefix_append: "HasPrefix (p @ x) p"
  by (simp add: HasPrefix_def)


lemma TrimSuffix_append: "TrimSuffix (x @ suf) suf = x"
  by (simp add: TrimSuffix_def HasSuffix_def)

lemma TrimSuffix_no_match: "\<not> HasSuffix x suf \<Longrightarrow> TrimSuffix x suf = x"
  by (simp add: TrimSuffix_def)

text \<open>
  The two event-name prefixes differ in their second byte, so no message starts with both.
\<close>

lemma prefixes_disjoint: "\<not> (HasPrefix b leagueDataPrefix \<and> HasPrefix b gameDataPrefix)"
proof
  assume "HasPrefix b leagueDataPrefix \<and> HasPrefix b gameDataPrefix"
  then have l: "take 19 b = leagueDataPrefix" and g: "take 17 b = gameDataPrefix"
    by (simp_all add: HasPrefix_def length_leagueDataPrefix length_gameDataPrefix)
  from l have "take 2 (take 19 b) = take 2 leagueDataPrefix" by simp
  then have "take 2 b = take 2 leagueDataPrefix" by simp
  moreover from g have "take 2 (take 17 b) = take 2 gameDataPrefix" by simp
  then have "take 2 b = take 2 gameDataPrefix" by simp
  ultimately have "take 2 leagueDataPrefix = take 2 gameDataPrefix" by simp
  then show False by (simp add: leagueDataPrefix_def gameDataPrefix_def)
qed

text \<open>
  \<^verbatim>\<open>NextUpdate\<close> on a text message, with the length comparisons replaced by the prefix
  tests they amount to.
\<close>

lemma NextUpdate_text:
  "NextUpdate uL uG (Inr (TextMessage, msg)) =
     (if HasPrefix (TrimPrefix msg ''42['') leagueDataPrefix then
        (case uL (TrimSuffix (drop (length leagueDataPrefix) (TrimPrefix msg ''42['')) '']'') of
           Inl e \<Rightarrow> Inl (UnmarshalError e)
         | Inr d \<Rightarrow> Inr (LeagueDataUpdate d))
      else if HasPrefix (TrimPrefix msg ''42['') gameDataPrefix then
        (case uG (TrimSuffix (drop (length gameDataPrefix) (TrimPrefix msg ''42['')) '']'') of
           Inl e \<Rightarrow> Inl (UnmarshalError e)
         | Inr g \<Rightarrow> Inr (GameDataUpdate g))
      else Inl (ErrorsNew ''unrecognized websocket data''))"
proof -
  let ?b = "TrimPrefix msg ''42[''"
  have nl: "leagueDataPrefix \<noteq> []" and ng: "gameDataPrefix \<noteq> []"
    by (simp_all add: leagueDataPrefix_def gameDataPrefix_def)
  have L: "int (length (TrimPrefix ?b leagueDataPrefix)) = int (length ?b) - int (length leagueDataPrefix)
      \<longleftrightarrow> HasPrefix ?b leagueDataPrefix"
    using nl by (simp only: length_TrimPrefix) simp
  show ?thesis
  proof (cases "HasPrefix ?b leagueDataPrefix")
    case True
    then have "TrimPrefix ?b leagueDataPrefix = drop (length leagueDataPrefix) ?b"
      by (rule TrimPrefix_match)
    with True L show ?thesis by (simp add: NextUpdate_def Let_def)
  next
    case False
    then have m2: "TrimPrefix ?b leagueDataPrefix = ?b" by (rule TrimPrefix_no_match)
    have G: "int (length (TrimPrefix ?b gameDataPrefix)) = int (length ?b) - int (length gameDataPrefix)
        \<longleftrightarrow> HasPrefix ?b gameDataPrefix"
      using ng by (simp only: length_TrimPrefix) simp
    show ?thesis
    proof (cases "HasPrefix ?b gameDataPrefix")
      case True
      then have "TrimPrefix ?b gameDataPrefix = drop (length gameDataPrefix) ?b"
        by (rule TrimPrefix_match)
      with True False L G m2 show ?thesis by (simp add: NextUpdate_def Let_def)
    next
      case g: False
      with False L G m2 show ?thesis by (simp add: NextUpdate_def Let_def)
    qed
  qed
qed


lemmas frame_defs = NextUpdate_def HasPrefix_def TrimPrefix_def HasSuffix_def TrimSuffix_def
  leagueDataPrefix_def gameDataPrefix_def unmarshalZero_def

section \<open>Facts about the range loops\<close>

lemma mergeByID_append:
  "mergeByID key m (xs @ ys) =
     (case mergeByID key m xs of Inl p \<Rightarrow> Inl p | Inr m1 \<Rightarrow> mergeByID key m1 ys)"
  by (induction key m xs rule: mergeByID.induct) (simp_all del: fun_upd_apply)

lemma mergeByID_other_key:
  "mergeByID key m xs = Inr m' \<Longrightarrow> \<forall>u. Some u \<in> set xs \<longrightarrow> key u \<noteq> k \<Longrightarrow> m' k = m k"
proof (induction key m xs rule: mergeByID.induct)
  case (1 key m)
  then show ?case by simp
next
  case (2 key m xs)
  then show ?case by simp
next
  case (3 key m x xs)
  from "3.prems"(1) have "mergeByID key (m(key x \<mapsto> x)) xs = Inr m'"
    by (simp del: fun_upd_apply)
  moreover from "3.prems"(2) have "\<forall>u. Some u \<in> set xs \<longrightarrow> key u \<noteq> k" by simp
  ultimately have "m' k = (m(key x \<mapsto> x)) k" by (rule "3.IH")
  moreover from "3.prems"(2) have "key x \<noteq> k" by simp
  ultimately show ?case by simp
qed

lemma map_add_twice: "(m ++ a) ++ a = m ++ a"
  by (simp add: map_add_def fun_eq_iff split: option.split)

lemma mergeByID_Inr_iff: "(\<exists>m'. mergeByID key m xs = Inr m') \<longleftrightarrow> None \<notin> set xs"
  by (induction key m xs rule: mergeByID.induct) (simp_all del: fun_upd_apply)

lemma map_of_rev_Cons:
  "m(k \<mapsto> v) ++ map_of (rev ps) = m ++ map_of (rev ((k, v) # ps))"
proof -
  have "map_of (rev ((k, v) # ps)) = map_of [(k, v)] ++ map_of (rev ps)"
    by (simp only: rev.simps map_of_append)
  also have "map_of [(k, v)] = Map.empty(k \<mapsto> v)"
    by (simp only: map_of.simps fst_conv snd_conv)
  finally have "m ++ map_of (rev ((k, v) # ps)) = (m ++ Map.empty(k \<mapsto> v)) ++ map_of (rev ps)"
    by (simp only: map_add_assoc)
  also have "m ++ Map.empty(k \<mapsto> v) = m(k \<mapsto> v)"
    by (simp only: map_add_upd map_add_empty)
  finally show ?thesis by (rule sym)
qed

text \<open>
  A loop that meets no nil pointer overrides the map with the records of the slice,
  later records over earlier ones.
\<close>

lemma mergeByID_map_of:
  "None \<notin> set xs \<Longrightarrow>
   mergeByID key m xs = Inr (m ++ map_of (rev (map (\<lambda>x. (key (the x), the x)) xs)))"
proof (induction key m xs rule: mergeByID.induct)
  case (1 key m)
  show ?case by simp
next
  case (2 key m xs)
  then show ?case by simp
next
  case (3 key m x xs)
  let ?f = "\<lambda>x. (key (the x), the x)"
  from "3.prems" have "None \<notin> set xs" by simp
  then have "mergeByID key (m(key x \<mapsto> x)) xs = Inr (m(key x \<mapsto> x) ++ map_of (rev (map ?f xs)))"
    by (rule "3.IH")
  also have "m(key x \<mapsto> x) ++ map_of (rev (map ?f xs)) = m ++ map_of (rev ((key x, x) # map ?f xs))"
    by (rule map_of_rev_Cons)
  also have "(key x, x) # map ?f xs = map ?f (Some x # xs)"
    by (simp only: list.map option.sel)
  finally show ?case by (simp only: mergeByID.simps)
qed

lemma mergeByID_idem:
  assumes "mergeByID key m xs = Inr m'"
  shows "mergeByID key m' xs = Inr m'"
proof -
  from assms have nn: "None \<notin> set xs" using mergeByID_Inr_iff by blast
  let ?a = "map_of (rev (map (\<lambda>x. (key (the x), the x)) xs))"
  have "mergeByID key m xs = Inr (m ++ ?a)" using nn by (rule mergeByID_map_of)
  with assms have m': "m' = m ++ ?a" by simp
  have "mergeByID key m' xs = Inr (m' ++ ?a)" using nn by (rule mergeByID_map_of)
  also have "m' ++ ?a = m'" unfolding m' by (rule map_add_twice)
  finally show ?thesis .
qed

lemma mergeByID_last_wins:
  assumes "mergeByID key m (pre @ Some t # post) = Inr m'"
    and "\<forall>u. Some u \<in> set post \<longrightarrow> key u \<noteq> key t"
  shows "m' (key t) = Some t"
proof -
  from assms(1) have c: "(case mergeByID key m pre of Inl p \<Rightarrow> Inl p
      | Inr m1 \<Rightarrow> mergeByID key m1 (Some t # post)) = Inr m'"
    by (simp only: mergeByID_append)
  then obtain m1 where m1: "mergeByID key m pre = Inr m1"
    by (cases "mergeByID key m pre") simp_all
  with c have "mergeByID key (m1(key t \<mapsto> t)) post = Inr m'"
    by (simp del: fun_upd_apply)
  from this assms(2) have "m' (key t) = (m1(key t \<mapsto> t)) (key t)"
    by (rule mergeByID_other_key)
  then show ?thesis by simp
qed

lemma mergeLeagueData_InrD:
  assumes "mergeLeagueData s d = Inr s'"
  shows "mergeByID Team.ID (teamsMap s) (Teams d) = Inr (teamsMap s')"
    and "mergeByID SubLeague.ID (subLeaguesMap s) (SubLeagues d) = Inr (subLeaguesMap s')"
    and "mergeByID Division.ID (divisionsMap s) (LeagueData.Divisions d) = Inr (divisionsMap s')"
    and "mergeByID League.ID (leaguesMap s) (Leagues d) = Inr (leaguesMap s')"
  using assms by (auto simp: mergeLeagueData_def split: sum.splits)

lemma mergeLeagueData_InrI:
  assumes "mergeByID Team.ID (teamsMap s) (Teams d) = Inr (teamsMap s')"
    and "mergeByID SubLeague.ID (subLeaguesMap s) (SubLeagues d) = Inr (subLeaguesMap s')"
    and "mergeByID Division.ID (divisionsMap s) (LeagueData.Divisions d) = Inr (divisionsMap s')"
    and "mergeByID League.ID (leaguesMap s) (Leagues d) = Inr (leaguesMap s')"
  shows "mergeLeagueData s d = Inr s'"
  using assms by (simp add: mergeLeagueData_def)

lemma mergeLeagueData_total:
  assumes "None \<notin> set (Teams d)" and "None \<notin> set (SubLeagues d)"
    and "None \<notin> set (LeagueData.Divisions d)" and "None \<notin> set (Leagues d)"
  shows "\<exists>s'. mergeLeagueData s d = Inr s'"
proof -
  from assms(1) obtain tm where 1: "mergeByID Team.ID (teamsMap s) (Teams d) = Inr tm"
    using mergeByID_Inr_iff by blast
  from assms(2) obtain sm where 2: "mergeByID SubLeague.ID (subLeaguesMap s) (SubLeagues d) = Inr sm"
    using mergeByID_Inr_iff by blast
  from assms(3) obtain dm where 3: "mergeByID Division.ID (divisionsMap s) (LeagueData.Divisions d) = Inr dm"
    using mergeByID_Inr_iff by blast
  from assms(4) obtain lm where 4: "mergeByID League.ID (leaguesMap s) (Leagues d) = Inr lm"
    using mergeByID_Inr_iff by blast
  show ?thesis by (simp add: mergeLeagueData_def 1 2 3 4)
qed

lemmas sample_defs = mergeLeagueData_def oneTeam_def zeroLeagueData_def emptyStore_def
  teamNamed_def zeroTeam_def sampleStore_def subLeagueNamed_def divisionNamed_def leagueNamed_def

section \<open>Facts about the update loop\<close>

text \<open>
  \<^verbatim>\<open>websocket.IsCloseError(err)\<close> is called without codes, so it is false for every
  error, and no pass through the loop body reaches the \<^verbatim>\<open>return\<close>.
\<close>

lemma IsCloseError_no_codes: "\<not> IsCloseError err []"
  by (simp add: IsCloseError_def split: error.split)

lemma iteration_error:
  "NextUpdate uL uG r = Inl err \<Longrightarrow>
   iteration uL uG (s, out) r =
     Continue (s, out @ [Text ''Waiting for update...\<newline>'', ErrorText err, Text ''\<newline>\<newline>''])"
  by (simp add: iteration_def IsCloseError_no_codes)

lemma iteration_not_Return: "iteration uL uG st r \<noteq> Return st'"
  by (cases st) (simp add: iteration_def IsCloseError_no_codes Let_def
      split: sum.split update.split)

lemma updateLoop_not_Return: "updateLoop uL uG st rs \<noteq> Return st'"
proof (induction rs arbitrary: st)
  case Nil
  show ?case by simp
next
  case (Cons r rs)
  show ?case
  proof (cases "iteration uL uG st r")
    case (Continue st1)
    with Cons.IH [of st1] show ?thesis by simp
  next
    case (Return st1)
    with iteration_not_Return [of uL uG st r st1] show ?thesis by simp
  next
    case (Panic p)
    then show ?thesis by simp
  qed
qed

section \<open>The claims\<close>

text \<open>
  C1, as the program has it: a text frame that starts neither with \<^verbatim>\<open>42[\<close> nor with one of
  the two event-name prefixes is rejected with the unrecognized-data error, and so is
  never classified as a reference-data or live-game update.
\<close>

theorem NextUpdate_unrecognized_without_42:
  assumes "\<not> HasPrefix msg ''42[''"
    and "\<not> HasPrefix msg leagueDataPrefix"
    and "\<not> HasPrefix msg gameDataPrefix"
  shows "NextUpdate uL uG (Inr (TextMessage, msg)) = Inl (ErrorsNew ''unrecognized websocket data'')"
proof -
  have m1: "TrimPrefix msg ''42['' = msg"
    using assms(1) by (rule TrimPrefix_no_match)
  have m2: "TrimPrefix msg leagueDataPrefix = msg"
    using assms(2) by (rule TrimPrefix_no_match)
  have m3: "TrimPrefix msg gameDataPrefix = msg"
    using assms(3) by (rule TrimPrefix_no_match)
  show ?thesis
    by (simp add: NextUpdate_def m1 m2 m3 length_leagueDataPrefix length_gameDataPrefix)
qed

text \<open>
  The frame \<^verbatim>\<open>40\<close> is such a frame.
\<close>

theorem NextUpdate_unrecognized_without_42_witness:
  "\<not> HasPrefix ''40'' ''42['' \<and> \<not> HasPrefix ''40'' leagueDataPrefix
   \<and> \<not> HasPrefix ''40'' gameDataPrefix
   \<and> NextUpdate (unmarshalZero zeroLeagueData) (unmarshalZero ())
        (Inr (TextMessage, ''40'')) = Inl (ErrorsNew ''unrecognized websocket data'')"
proof -
  have h1: "\<not> HasPrefix ''40'' ''42[''" by (simp add: HasPrefix_def)
  have h2: "\<not> HasPrefix ''40'' leagueDataPrefix"
    by (simp add: HasPrefix_def leagueDataPrefix_def)
  have h3: "\<not> HasPrefix ''40'' gameDataPrefix"
    by (simp add: HasPrefix_def gameDataPrefix_def)
  show ?thesis
    using h1 h2 h3 NextUpdate_unrecognized_without_42 [OF h1 h2 h3] by simp
qed

text \<open>
  C1 as stated fails: the frame \<^verbatim>\<open>"leagueDataUpdate",{}]\<close> does not start with \<^verbatim>\<open>42[\<close>, the
  trim of \<^verbatim>\<open>42[\<close> leaves it as it is, and it is decoded as a reference-data update.
\<close>

theorem NextUpdate_without_42_counterexample:
  \<open>\<not> HasPrefix ''"leagueDataUpdate",{}]'' ''42[''
   \<and> NextUpdate (unmarshalZero zeroLeagueData) (unmarshalZero ())
        (Inr (TextMessage, ''"leagueDataUpdate",{}]'')) = Inr (LeagueDataUpdate zeroLeagueData)\<close>
  by (simp add: NextUpdate_def HasPrefix_def TrimPrefix_def HasSuffix_def TrimSuffix_def
      leagueDataPrefix_def unmarshalZero_def)

text \<open>
  C2, evaluated on the program: when \<^verbatim>\<open>ReadMessage\<close> fails with a close error (any code,
  any text), the loop prints the error and goes on to the next read with the maps as
  they were; it does not return, there or on any later read. The claim asks for the
  loop to end at that read.
\<close>

theorem updateLoop_close_error_continues:
  "updateLoop uL uG (s, out) (Inl (CloseError code txt) # rs) =
     updateLoop uL uG
       (s, out @ [Text ''Waiting for update...\<newline>'', ErrorText (CloseError code txt),
                  Text ''\<newline>\<newline>'']) rs
   \<and> updateLoop uL uG (s, out) (Inl (CloseError code txt) # rs) \<noteq> Return st'"
proof
  have "NextUpdate uL uG (Inl (CloseError code txt)) = Inl (CloseError code txt)"
    by (simp add: NextUpdate_def)
  then have "iteration uL uG (s, out) (Inl (CloseError code txt)) =
      Continue (s, out @ [Text ''Waiting for update...\<newline>'', ErrorText (CloseError code txt),
                  Text ''\<newline>\<newline>''])"
    by (rule iteration_error)
  then show "updateLoop uL uG (s, out) (Inl (CloseError code txt) # rs) =
     updateLoop uL uG
       (s, out @ [Text ''Waiting for update...\<newline>'', ErrorText (CloseError code txt),
                  Text ''\<newline>\<newline>'']) rs"
    by simp
  show "updateLoop uL uG (s, out) (Inl (CloseError code txt) # rs) \<noteq> Return st'"
    by (rule updateLoop_not_Return)
qed




text \<open>
  C4: let the teams map hold a team under the key of \<open>t\<close>, and let \<open>t\<close> be the record
  the snapshot carries for that key. After the merge, the map holds under that key
  exactly \<open>t\<close>, every field of it, and nothing else.
\<close>

theorem mergeLeagueData_replaces_team:
  assumes "teamsMap s (Team.ID t) = Some old"
    and "Some t \<in> set (Teams d)"
    and "\<forall>t'. Some t' \<in> set (Teams d) \<and> Team.ID t' = Team.ID t \<longrightarrow> t' = t"
    and "mergeLeagueData s d = Inr s'"
  shows "teamsMap s' (Team.ID t) = Some t \<and> (\<exists>!v. teamsMap s' (Team.ID t) = Some v)"
proof -
  from assms(2) obtain pre post where d: "Teams d = pre @ Some t # post"
    and last: "Some t \<notin> set post"
    using split_list_last by fastforce
  have "\<forall>u. Some u \<in> set post \<longrightarrow> Team.ID u \<noteq> Team.ID t"
  proof (intro allI impI notI)
    fix u assume u: "Some u \<in> set post" and "Team.ID u = Team.ID t"
    with assms(3) d have "u = t" by simp
    with u last show False by simp
  qed
  moreover from mergeLeagueData_InrD(1) [OF assms(4)] d
  have "mergeByID Team.ID (teamsMap s) (pre @ Some t # post) = Inr (teamsMap s')" by simp
  ultimately have "teamsMap s' (Team.ID t) = Some t" by (rule mergeByID_last_wins [rotated])
  then show ?thesis by simp
qed

text \<open>
  The scenario of the specification: the Mild High Horses stored under \<^verbatim>\<open>T1\<close> are
  replaced by the Hawai'i Fridays.
\<close>

theorem mergeLeagueData_replaces_team_witness:
  "teamsMap sampleStore ''T1'' = Some (teamNamed ''T1'' ''Mild High Horses'')
   \<and> mergeLeagueData sampleStore (oneTeam (teamNamed ''T1'' ''Hawai'i Fridays''))
       = Inr (sampleStore\<lparr>teamsMap := [''T1'' \<mapsto> teamNamed ''T1'' ''Hawai'i Fridays'']\<rparr>)
   \<and> teamsMap (sampleStore\<lparr>teamsMap := [''T1'' \<mapsto> teamNamed ''T1'' ''Hawai'i Fridays'']\<rparr>) ''T1''
       = Some (teamNamed ''T1'' ''Hawai'i Fridays'')
   \<and> FullName (the (teamsMap (sampleStore\<lparr>teamsMap := [''T1'' \<mapsto> teamNamed ''T1'' ''Hawai'i Fridays'']\<rparr>) ''T1''))
       = ''Hawai'i Fridays''"
proof -
  let ?t = "teamNamed ''T1'' ''Hawai'i Fridays''"
  let ?s' = "sampleStore\<lparr>teamsMap := [''T1'' \<mapsto> ?t]\<rparr>"
  have i: "Team.ID ?t = ''T1''" by (simp add: teamNamed_def)
  have h1: "teamsMap sampleStore (Team.ID ?t) = Some (teamNamed ''T1'' ''Mild High Horses'')"
    by (simp add: sampleStore_def teamNamed_def)
  have h2: "Some ?t \<in> set (Teams (oneTeam ?t))"
    by (simp add: oneTeam_def)
  have h3: "\<forall>t'. Some t' \<in> set (Teams (oneTeam ?t)) \<and> Team.ID t' = Team.ID ?t \<longrightarrow> t' = ?t"
    by (simp add: oneTeam_def)
  have h4: "mergeLeagueData sampleStore (oneTeam ?t) = Inr ?s'"
    by (simp add: sample_defs)
  have n: "FullName ?t = ''Hawai'i Fridays''" by (simp add: teamNamed_def)
  from mergeLeagueData_replaces_team [OF h1 h2 h3 h4] h1 h4 i n show ?thesis by simp
qed

text \<open>
  C5: when \<^verbatim>\<open>NextUpdate\<close> fails with the error of \<^verbatim>\<open>json.Unmarshal\<close> (the envelope matched,
  the body did not decode), the pass through the loop body prints the error, leaves the
  four maps as they were, and the loop goes on with the next read.
\<close>

theorem iteration_parse_error_keeps_store:
  assumes "NextUpdate uL uG r = Inl (UnmarshalError e)"
  shows "iteration uL uG (s, out) r =
           Continue (s, out @ [Text ''Waiting for update...\<newline>'',
                               ErrorText (UnmarshalError e), Text ''\<newline>\<newline>''])
       \<and> updateLoop uL uG (s, out) (r # rs) =
           updateLoop uL uG (s, out @ [Text ''Waiting for update...\<newline>'',
                               ErrorText (UnmarshalError e), Text ''\<newline>\<newline>'']) rs"
  using iteration_error [OF assms, of s out] by simp

text \<open>
  A reference-data frame whose body is a lone opening brace.
\<close>

theorem iteration_parse_error_keeps_store_witness:
  \<open>NextUpdate (unmarshalZero zeroLeagueData) (unmarshalZero ())
      (Inr (TextMessage, ''42["leagueDataUpdate",{]'')) = Inl (UnmarshalError ''unexpected end of JSON input'')
   \<and> iteration (unmarshalZero zeroLeagueData) (unmarshalZero ()) (sampleStore, [])
      (Inr (TextMessage, ''42["leagueDataUpdate",{]'')) =
        Continue (sampleStore, [Text ''Waiting for update...\<newline>'',
           ErrorText (UnmarshalError ''unexpected end of JSON input''), Text ''\<newline>\<newline>''])\<close>
proof -
  have h: \<open>NextUpdate (unmarshalZero zeroLeagueData) (unmarshalZero ())
      (Inr (TextMessage, ''42["leagueDataUpdate",{]'')) = Inl (UnmarshalError ''unexpected end of JSON input'')\<close>
    by (simp add: frame_defs)
  from iteration_parse_error_keeps_store [OF h, of sampleStore "[]" "[]"] h
  show ?thesis by simp
qed

text \<open>
  C6: merging a snapshot and then merging it again gives what merging it once gives:
  the same four maps, or the same panic when the snapshot holds a nil pointer.
\<close>

theorem mergeLeagueData_idempotent:
  "(case mergeLeagueData s d of Inl p \<Rightarrow> Inl p | Inr s' \<Rightarrow> mergeLeagueData s' d)
     = mergeLeagueData s d"
proof (cases "mergeLeagueData s d")
  case (Inl p)
  then show ?thesis by simp
next
  case (Inr s')
  have "mergeLeagueData s' d = Inr s'"
    by (rule mergeLeagueData_InrI) (rule mergeByID_idem, rule mergeLeagueData_InrD [OF Inr])+
  with Inr show ?thesis by simp
qed

text \<open>
  Merging one team twice into the empty maps.
\<close>

theorem mergeLeagueData_idempotent_witness:
  "(case mergeLeagueData emptyStore (oneTeam (teamNamed ''T1'' ''Mild High Horses'')) of
      Inl p \<Rightarrow> Inl p
    | Inr s' \<Rightarrow> mergeLeagueData s' (oneTeam (teamNamed ''T1'' ''Mild High Horses'')))
   = Inr (emptyStore\<lparr>teamsMap := [''T1'' \<mapsto> teamNamed ''T1'' ''Mild High Horses'']\<rparr>)"
  using mergeLeagueData_idempotent [where s = emptyStore
      and d = "oneTeam (teamNamed ''T1'' ''Mild High Horses'')"]
  by (simp add: mergeLeagueData_def oneTeam_def zeroLeagueData_def emptyStore_def
      teamNamed_def zeroTeam_def)

text \<open>
  C7: if the sub-league, division and league slices of a snapshot are empty, the merge
  completes whenever no team pointer is nil, and whenever it completes the sub-league,
  division and league maps are what they were.
\<close>

theorem mergeLeagueData_teams_only:
  assumes "SubLeagues d = []" and "LeagueData.Divisions d = []" and "Leagues d = []"
  shows "(None \<notin> set (Teams d) \<longrightarrow> (\<exists>s'. mergeLeagueData s d = Inr s'))
       \<and> (\<forall>s'. mergeLeagueData s d = Inr s' \<longrightarrow>
            subLeaguesMap s' = subLeaguesMap s \<and> divisionsMap s' = divisionsMap s
            \<and> leaguesMap s' = leaguesMap s)"
proof (intro conjI impI allI)
  assume "None \<notin> set (Teams d)"
  then show "\<exists>s'. mergeLeagueData s d = Inr s'"
    by (rule mergeLeagueData_total) (simp_all add: assms)
next
  fix s' assume "mergeLeagueData s d = Inr s'"
  note D = mergeLeagueData_InrD [OF this]
  from D(2) show "subLeaguesMap s' = subLeaguesMap s" by (simp add: assms)
  from D(3) show "divisionsMap s' = divisionsMap s" by (simp add: assms)
  from D(4) show "leaguesMap s' = leaguesMap s" by (simp add: assms)
qed

text \<open>
  A snapshot of one new team merged into a store that holds one entry of each kind.
\<close>

theorem mergeLeagueData_teams_only_witness:
  "SubLeagues (oneTeam (teamNamed ''T2'' ''Hawai'i Fridays'')) = []
   \<and> LeagueData.Divisions (oneTeam (teamNamed ''T2'' ''Hawai'i Fridays'')) = []
   \<and> Leagues (oneTeam (teamNamed ''T2'' ''Hawai'i Fridays'')) = []
   \<and> (\<exists>s'. mergeLeagueData sampleStore (oneTeam (teamNamed ''T2'' ''Hawai'i Fridays'')) = Inr s'
         \<and> subLeaguesMap s' = subLeaguesMap sampleStore
         \<and> divisionsMap s' = divisionsMap sampleStore
         \<and> leaguesMap s' = leaguesMap sampleStore
         \<and> subLeaguesMap s' ''S1'' = Some (subLeagueNamed ''S1'' ''Good''))"
proof -
  let ?d = "oneTeam (teamNamed ''T2'' ''Hawai'i Fridays'')"
  have h1: "SubLeagues ?d = []" by (simp add: oneTeam_def zeroLeagueData_def)
  have h2: "LeagueData.Divisions ?d = []" by (simp add: oneTeam_def zeroLeagueData_def)
  have h3: "Leagues ?d = []" by (simp add: oneTeam_def zeroLeagueData_def)
  have nn: "None \<notin> set (Teams ?d)" by (simp add: oneTeam_def zeroLeagueData_def)
  have s1: "subLeaguesMap sampleStore ''S1'' = Some (subLeagueNamed ''S1'' ''Good'')"
    by (simp add: sampleStore_def)
  from mergeLeagueData_teams_only [OF h1 h2 h3, of sampleStore] nn s1
  have "\<exists>s'. mergeLeagueData sampleStore ?d = Inr s'
         \<and> subLeaguesMap s' = subLeaguesMap sampleStore
         \<and> divisionsMap s' = divisionsMap sampleStore
         \<and> leaguesMap s' = leaguesMap sampleStore
         \<and> subLeaguesMap s' ''S1'' = Some (subLeagueNamed ''S1'' ''Good'')"
    by metis
  with h1 h2 h3 show ?thesis by blast
qed

text \<open>
  C8, as the program has it: when \<^verbatim>\<open>NextUpdate\<close> returns a live-game update, the pass
  through the loop body prints the fixed line \<^verbatim>\<open>GameData\<close> once, leaves the four maps as
  they were, and continues. The snapshot appears nowhere in the result: the program
  has no observer and hands the snapshot to nothing.
\<close>

theorem iteration_game_data_keeps_store:
  assumes "NextUpdate uL uG r = Inr (GameDataUpdate g)"
  shows "iteration uL uG (s, out) r =
           Continue (s, out @ [Text ''Waiting for update...\<newline>'', Text ''Update type: '',
                               Text ''GameData\<newline>'', Text ''\<newline>''])"
  using assms by (simp add: iteration_def)

text \<open>
  A live-game frame with an empty object as body.
\<close>

theorem iteration_game_data_keeps_store_witness:
  \<open>NextUpdate (unmarshalZero zeroLeagueData) (unmarshalZero ())
      (Inr (TextMessage, ''42["gameDataUpdate",{}]'')) = Inr (GameDataUpdate ())
   \<and> iteration (unmarshalZero zeroLeagueData) (unmarshalZero ()) (sampleStore, [])
      (Inr (TextMessage, ''42["gameDataUpdate",{}]'')) =
        Continue (sampleStore, [Text ''Waiting for update...\<newline>'', Text ''Update type: '',
                               Text ''GameData\<newline>'', Text ''\<newline>''])\<close>
proof -
  have h: \<open>NextUpdate (unmarshalZero zeroLeagueData) (unmarshalZero ())
      (Inr (TextMessage, ''42["gameDataUpdate",{}]'')) = Inr (GameDataUpdate ())\<close>
    by (simp add: frame_defs)
  from iteration_game_data_keeps_store [OF h, of sampleStore "[]"] h
  show ?thesis by simp
qed

text \<open>
  C8 as stated fails: two frames that decode to different live-game snapshots leave
  exactly the same store and the same output, so neither snapshot is routed anywhere.
\<close>

theorem iteration_drops_game_data_counterexample:
  \<open>NextUpdate (unmarshalZero zeroLeagueData) unmarshalGameSample
       (Inr (TextMessage, ''42["gameDataUpdate",{}]'')) = Inr (GameDataUpdate zeroGameData)
   \<and> NextUpdate (unmarshalZero zeroLeagueData) unmarshalGameSample
       (Inr (TextMessage, ''42["gameDataUpdate",{"schedule":[null]}]''))
       = Inr (GameDataUpdate (zeroGameData\<lparr>Schedules := [None]\<rparr>))
   \<and> zeroGameData \<noteq> zeroGameData\<lparr>Schedules := [None]\<rparr>
   \<and> iteration (unmarshalZero zeroLeagueData) unmarshalGameSample (sampleStore, [])
         (Inr (TextMessage, ''42["gameDataUpdate",{}]''))
     = iteration (unmarshalZero zeroLeagueData) unmarshalGameSample (sampleStore, [])
         (Inr (TextMessage, ''42["gameDataUpdate",{"schedule":[null]}]''))\<close>
proof -
  have 1: \<open>NextUpdate (unmarshalZero zeroLeagueData) unmarshalGameSample
       (Inr (TextMessage, ''42["gameDataUpdate",{}]'')) = Inr (GameDataUpdate zeroGameData)\<close>
    by (simp add: frame_defs unmarshalGameSample_def)
  have 2: \<open>NextUpdate (unmarshalZero zeroLeagueData) unmarshalGameSample
       (Inr (TextMessage, ''42["gameDataUpdate",{"schedule":[null]}]''))
       = Inr (GameDataUpdate (zeroGameData\<lparr>Schedules := [None]\<rparr>))\<close>
    by (simp add: frame_defs unmarshalGameSample_def)
  have 3: "zeroGameData \<noteq> zeroGameData\<lparr>Schedules := [None]\<rparr>"
    by (simp add: zeroGameData_def)
  have 4: \<open>iteration (unmarshalZero zeroLeagueData) unmarshalGameSample (sampleStore, [])
         (Inr (TextMessage, ''42["gameDataUpdate",{}]''))
     = iteration (unmarshalZero zeroLeagueData) unmarshalGameSample (sampleStore, [])
         (Inr (TextMessage, ''42["gameDataUpdate",{"schedule":[null]}]''))\<close>
    by (simp add: iteration_def 1 2)
  from 1 2 3 4 show ?thesis by (intro conjI)
qed

text \<open>
  C9, as the program has it. Let \<open>body\<close> be the text frame after the trim of \<^verbatim>\<open>42[\<close>. If
  \<open>body\<close> is an event-name prefix followed by \<open>json\<close> and one closing bracket, the bytes
  given to the JSON decoder of the matched kind are \<open>json\<close>: one bracket is taken off,
  also when \<open>json\<close> itself ends with a bracket. If \<open>body\<close> is the prefix followed by
  bytes that do not end with a bracket, nothing is taken off. The two prefixes never
  match together, and when neither matches the result is the unrecognized-data error.
\<close>

theorem NextUpdate_envelope:
  assumes "body = TrimPrefix msg ''42[''"
  shows "(body = leagueDataPrefix @ json @ '']'' \<longrightarrow>
            NextUpdate uL uG (Inr (TextMessage, msg)) =
              (case uL json of Inl e \<Rightarrow> Inl (UnmarshalError e) | Inr d \<Rightarrow> Inr (LeagueDataUpdate d)))
       \<and> (body = leagueDataPrefix @ json \<and> \<not> HasSuffix json '']'' \<longrightarrow>
            NextUpdate uL uG (Inr (TextMessage, msg)) =
              (case uL json of Inl e \<Rightarrow> Inl (UnmarshalError e) | Inr d \<Rightarrow> Inr (LeagueDataUpdate d)))
       \<and> (body = gameDataPrefix @ json @ '']'' \<longrightarrow>
            NextUpdate uL uG (Inr (TextMessage, msg)) =
              (case uG json of Inl e \<Rightarrow> Inl (UnmarshalError e) | Inr g \<Rightarrow> Inr (GameDataUpdate g)))
       \<and> (body = gameDataPrefix @ json \<and> \<not> HasSuffix json '']'' \<longrightarrow>
            NextUpdate uL uG (Inr (TextMessage, msg)) =
              (case uG json of Inl e \<Rightarrow> Inl (UnmarshalError e) | Inr g \<Rightarrow> Inr (GameDataUpdate g)))
       \<and> \<not> (HasPrefix body leagueDataPrefix \<and> HasPrefix body gameDataPrefix)
       \<and> (\<not> HasPrefix body leagueDataPrefix \<and> \<not> HasPrefix body gameDataPrefix \<longrightarrow>
            NextUpdate uL uG (Inr (TextMessage, msg)) = Inl (ErrorsNew ''unrecognized websocket data''))"
proof (intro conjI impI)
  assume b: "body = leagueDataPrefix @ json @ '']''"
  then have "HasPrefix body leagueDataPrefix" by (simp only: HasPrefix_append)
  moreover from b have "drop (length leagueDataPrefix) body = json @ '']''" by simp
  ultimately show "NextUpdate uL uG (Inr (TextMessage, msg)) =
      (case uL json of Inl e \<Rightarrow> Inl (UnmarshalError e) | Inr d \<Rightarrow> Inr (LeagueDataUpdate d))"
    unfolding assms by (simp only: NextUpdate_text TrimSuffix_append if_True)
next
  assume "body = leagueDataPrefix @ json \<and> \<not> HasSuffix json '']''"
  then have b: "body = leagueDataPrefix @ json" and n: "TrimSuffix json '']'' = json"
    by (simp_all add: TrimSuffix_no_match)
  from b have "HasPrefix body leagueDataPrefix" by (simp only: HasPrefix_append)
  moreover from b have "drop (length leagueDataPrefix) body = json" by simp
  ultimately show "NextUpdate uL uG (Inr (TextMessage, msg)) =
      (case uL json of Inl e \<Rightarrow> Inl (UnmarshalError e) | Inr d \<Rightarrow> Inr (LeagueDataUpdate d))"
    unfolding assms by (simp only: NextUpdate_text n if_True)
next
  assume b: "body = gameDataPrefix @ json @ '']''"
  then have g: "HasPrefix body gameDataPrefix" by (simp only: HasPrefix_append)
  with prefixes_disjoint [of body] have "\<not> HasPrefix body leagueDataPrefix" by simp
  moreover from b have "drop (length gameDataPrefix) body = json @ '']''" by simp
  ultimately show "NextUpdate uL uG (Inr (TextMessage, msg)) =
      (case uG json of Inl e \<Rightarrow> Inl (UnmarshalError e) | Inr g \<Rightarrow> Inr (GameDataUpdate g))"
    using g unfolding assms by (simp only: NextUpdate_text TrimSuffix_append if_True if_False)
next
  assume "body = gameDataPrefix @ json \<and> \<not> HasSuffix json '']''"
  then have b: "body = gameDataPrefix @ json" and n: "TrimSuffix json '']'' = json"
    by (simp_all add: TrimSuffix_no_match)
  from b have g: "HasPrefix body gameDataPrefix" by (simp only: HasPrefix_append)
  with prefixes_disjoint [of body] have "\<not> HasPrefix body leagueDataPrefix" by simp
  moreover from b have "drop (length gameDataPrefix) body = json" by simp
  ultimately show "NextUpdate uL uG (Inr (TextMessage, msg)) =
      (case uG json of Inl e \<Rightarrow> Inl (UnmarshalError e) | Inr g \<Rightarrow> Inr (GameDataUpdate g))"
    using g unfolding assms by (simp only: NextUpdate_text n if_True if_False)
next
  show "\<not> (HasPrefix body leagueDataPrefix \<and> HasPrefix body gameDataPrefix)"
    by (rule prefixes_disjoint)
next
  assume "\<not> HasPrefix body leagueDataPrefix \<and> \<not> HasPrefix body gameDataPrefix"
  then show "NextUpdate uL uG (Inr (TextMessage, msg)) = Inl (ErrorsNew ''unrecognized websocket data'')"
    unfolding assms by (simp only: NextUpdate_text if_False)
qed

text \<open>
  Four frames: reference data, live-game data, live-game data closed by two brackets
  (one is taken off, the other stays and the body is rejected), and an unknown event.
\<close>

theorem NextUpdate_envelope_witness:
  \<open>NextUpdate (unmarshalZero zeroLeagueData) (unmarshalZero ())
      (Inr (TextMessage, ''42["leagueDataUpdate",{}]'')) = Inr (LeagueDataUpdate zeroLeagueData)
   \<and> NextUpdate (unmarshalZero zeroLeagueData) (unmarshalZero ())
      (Inr (TextMessage, ''42["gameDataUpdate",{}]'')) = Inr (GameDataUpdate ())
   \<and> NextUpdate (unmarshalZero zeroLeagueData) (unmarshalZero ())
      (Inr (TextMessage, ''42["gameDataUpdate",{}]]'')) = Inl (UnmarshalError ''invalid character ']' after top-level value'')
   \<and> NextUpdate (unmarshalZero zeroLeagueData) (unmarshalZero ())
      (Inr (TextMessage, ''42["playerUpdate",{}]'')) = Inl (ErrorsNew ''unrecognized websocket data'')\<close>
proof -
  let ?uL = "unmarshalZero zeroLeagueData" and ?uG = "unmarshalZero ()"
  have b1: \<open>''"leagueDataUpdate",{}]'' = TrimPrefix ''42["leagueDataUpdate",{}]'' ''42[''\<close>
    by (simp add: TrimPrefix_def HasPrefix_def)
  have s1: \<open>''"leagueDataUpdate",{}]'' = leagueDataPrefix @ ''{}'' @ '']''\<close>
    by (simp add: leagueDataPrefix_def)
  have b2: \<open>''"gameDataUpdate",{}]'' = TrimPrefix ''42["gameDataUpdate",{}]'' ''42[''\<close>
    by (simp add: TrimPrefix_def HasPrefix_def)
  have s2: \<open>''"gameDataUpdate",{}]'' = gameDataPrefix @ ''{}'' @ '']''\<close>
    by (simp add: gameDataPrefix_def)
  have b3: \<open>''"gameDataUpdate",{}]]'' = TrimPrefix ''42["gameDataUpdate",{}]]'' ''42[''\<close>
    by (simp add: TrimPrefix_def HasPrefix_def)
  have s3: \<open>''"gameDataUpdate",{}]]'' = gameDataPrefix @ ''{}]'' @ '']''\<close>
    by (simp add: gameDataPrefix_def)
  have b4: \<open>''"playerUpdate",{}]'' = TrimPrefix ''42["playerUpdate",{}]'' ''42[''\<close>
    by (simp add: TrimPrefix_def HasPrefix_def)
  have s4: \<open>\<not> HasPrefix ''"playerUpdate",{}]'' leagueDataPrefix
      \<and> \<not> HasPrefix ''"playerUpdate",{}]'' gameDataPrefix\<close>
    by (simp add: HasPrefix_def leagueDataPrefix_def gameDataPrefix_def)
  note E1 = NextUpdate_envelope [OF b1, of "''{}''" ?uL ?uG]
  note E2 = NextUpdate_envelope [OF b2, of "''{}''" ?uL ?uG]
  note E3 = NextUpdate_envelope [OF b3, of "''{}]''" ?uL ?uG]
  note E4 = NextUpdate_envelope [OF b4, of "[]" ?uL ?uG]
  from E1 [THEN conjunct1, THEN mp, OF s1]
  have 1: \<open>NextUpdate ?uL ?uG (Inr (TextMessage, ''42["leagueDataUpdate",{}]''))
      = Inr (LeagueDataUpdate zeroLeagueData)\<close>
    by (simp add: unmarshalZero_def)
  from E2 [THEN conjunct2, THEN conjunct2, THEN conjunct1, THEN mp, OF s2]
  have 2: \<open>NextUpdate ?uL ?uG (Inr (TextMessage, ''42["gameDataUpdate",{}]''))
      = Inr (GameDataUpdate ())\<close>
    by (simp add: unmarshalZero_def)
  from E3 [THEN conjunct2, THEN conjunct2, THEN conjunct1, THEN mp, OF s3]
  have 3: \<open>NextUpdate ?uL ?uG (Inr (TextMessage, ''42["gameDataUpdate",{}]]''))
      = Inl (UnmarshalError ''invalid character ']' after top-level value'')\<close>
    by (simp add: unmarshalZero_def)
  from E4 [THEN conjunct2, THEN conjunct2, THEN conjunct2, THEN conjunct2, THEN conjunct2, THEN mp, OF s4]
  have 4: \<open>NextUpdate ?uL ?uG (Inr (TextMessage, ''42["playerUpdate",{}]''))
      = Inl (ErrorsNew ''unrecognized websocket data'')\<close> .
  from 1 2 3 4 show ?thesis by (intro conjI)
qed

text \<open>
  C9 as stated fails: in the frame \<^verbatim>\<open>42["leagueDataUpdate",{}\<close> the reference-data prefix
  matches and the body \<^verbatim>\<open>{}\<close> has no closing bracket; no byte is taken off and the frame
  is decoded.
\<close>

theorem NextUpdate_no_closing_bracket_counterexample:
  \<open>TrimPrefix ''42["leagueDataUpdate",{}'' ''42['' = leagueDataPrefix @ ''{}''
   \<and> \<not> HasSuffix ''{}'' '']''
   \<and> NextUpdate (unmarshalZero zeroLeagueData) (unmarshalZero ())
        (Inr (TextMessage, ''42["leagueDataUpdate",{}'')) = Inr (LeagueDataUpdate zeroLeagueData)\<close>
  by (simp add: frame_defs)

text \<open>
  C10: when a snapshot has been merged and one of its slices holds a record \<open>a\<close> and,
  later, a record \<open>b\<close> with the same key, with no record of that key after \<open>b\<close>, the
  map of that kind holds \<open>b\<close> under the key. This is so for teams, sub-leagues,
  divisions and leagues.
\<close>

theorem mergeLeagueData_last_write_wins:
  assumes "mergeLeagueData s d = Inr s'"
  shows "(\<forall>xs a ys b zs. Teams d = xs @ Some a # ys @ Some b # zs \<and> Team.ID a = Team.ID b
            \<and> (\<forall>u. Some u \<in> set zs \<longrightarrow> Team.ID u \<noteq> Team.ID b)
          \<longrightarrow> teamsMap s' (Team.ID b) = Some b)
       \<and> (\<forall>xs a ys b zs. SubLeagues d = xs @ Some a # ys @ Some b # zs \<and> SubLeague.ID a = SubLeague.ID b
            \<and> (\<forall>u. Some u \<in> set zs \<longrightarrow> SubLeague.ID u \<noteq> SubLeague.ID b)
          \<longrightarrow> subLeaguesMap s' (SubLeague.ID b) = Some b)
       \<and> (\<forall>xs a ys b zs. LeagueData.Divisions d = xs @ Some a # ys @ Some b # zs \<and> Division.ID a = Division.ID b
            \<and> (\<forall>u. Some u \<in> set zs \<longrightarrow> Division.ID u \<noteq> Division.ID b)
          \<longrightarrow> divisionsMap s' (Division.ID b) = Some b)
       \<and> (\<forall>xs a ys b zs. Leagues d = xs @ Some a # ys @ Some b # zs \<and> League.ID a = League.ID b
            \<and> (\<forall>u. Some u \<in> set zs \<longrightarrow> League.ID u \<noteq> League.ID b)
          \<longrightarrow> leaguesMap s' (League.ID b) = Some b)"
proof -
  note D = mergeLeagueData_InrD [OF assms]
  have later: "m' (key b) = Some b"
    if "mergeByID key m l = Inr m'" and "l = xs @ Some a # ys @ Some b # zs"
      and "\<forall>u. Some u \<in> set zs \<longrightarrow> key u \<noteq> key b"
    for key :: "'a \<Rightarrow> string" and m m' l xs a ys b zs
  proof -
    from that(1,2) have "mergeByID key m ((xs @ Some a # ys) @ Some b # zs) = Inr m'"
      by simp
    from this that(3) show ?thesis by (rule mergeByID_last_wins)
  qed
  show ?thesis
  proof (intro conjI allI impI)
    fix xs a ys b zs
    assume "Teams d = xs @ Some a # ys @ Some b # zs \<and> Team.ID a = Team.ID b
        \<and> (\<forall>u. Some u \<in> set zs \<longrightarrow> Team.ID u \<noteq> Team.ID b)"
    then show "teamsMap s' (Team.ID b) = Some b" using later [OF D(1)] by blast
  next
    fix xs a ys b zs
    assume "SubLeagues d = xs @ Some a # ys @ Some b # zs \<and> SubLeague.ID a = SubLeague.ID b
        \<and> (\<forall>u. Some u \<in> set zs \<longrightarrow> SubLeague.ID u \<noteq> SubLeague.ID b)"
    then show "subLeaguesMap s' (SubLeague.ID b) = Some b" using later [OF D(2)] by blast
  next
    fix xs a ys b zs
    assume "LeagueData.Divisions d = xs @ Some a # ys @ Some b # zs \<and> Division.ID a = Division.ID b
        \<and> (\<forall>u. Some u \<in> set zs \<longrightarrow> Division.ID u \<noteq> Division.ID b)"
    then show "divisionsMap s' (Division.ID b) = Some b" using later [OF D(3)] by blast
  next
    fix xs a ys b zs
    assume "Leagues d = xs @ Some a # ys @ Some b # zs \<and> League.ID a = League.ID b
        \<and> (\<forall>u. Some u \<in> set zs \<longrightarrow> League.ID u \<noteq> League.ID b)"
    then show "leaguesMap s' (League.ID b) = Some b" using later [OF D(4)] by blast
  qed
qed

text \<open>
  A snapshot with two records under one key in each of its four slices.
\<close>

theorem mergeLeagueData_last_write_wins_witness:
  "(\<exists>s'. mergeLeagueData emptyStore duplicates = Inr s'
      \<and> teamsMap s' ''T1'' = Some (teamNamed ''T1'' ''Hawai'i Fridays'')
      \<and> subLeaguesMap s' ''S1'' = Some (subLeagueNamed ''S1'' ''Evil'')
      \<and> divisionsMap s' ''D1'' = Some (divisionNamed ''D1'' ''Chaotic Good'')
      \<and> leaguesMap s' ''L1'' = Some (leagueNamed ''L1'' ''ILB''))"
proof -
  obtain s' where m: "mergeLeagueData emptyStore duplicates = Inr s'"
    using mergeLeagueData_total [of duplicates emptyStore] by (auto simp: duplicates_def)
  note W = mergeLeagueData_last_write_wins [OF m]
  have t: "Teams duplicates = [] @ Some (teamNamed ''T1'' ''Mild High Horses'') # []
      @ Some (teamNamed ''T1'' ''Hawai'i Fridays'') # []"
    by (simp add: duplicates_def)
  have sl: "SubLeagues duplicates = [] @ Some (subLeagueNamed ''S1'' ''Good'') # []
      @ Some (subLeagueNamed ''S1'' ''Evil'') # []"
    by (simp add: duplicates_def)
  have dv: "LeagueData.Divisions duplicates = [] @ Some (divisionNamed ''D1'' ''Lawful Good'') # []
      @ Some (divisionNamed ''D1'' ''Chaotic Good'') # []"
    by (simp add: duplicates_def)
  have lg: "Leagues duplicates = [] @ Some (leagueNamed ''L1'' ''Internet League Blaseball'') # []
      @ Some (leagueNamed ''L1'' ''ILB'') # []"
    by (simp add: duplicates_def)
  have "Team.ID (teamNamed ''T1'' ''Mild High Horses'') = Team.ID (teamNamed ''T1'' ''Hawai'i Fridays'')"
    by (simp add: teamNamed_def)
  with t W [THEN conjunct1, rule_format, of "[]" _ "[]" _ "[]"]
  have 1: "teamsMap s' (Team.ID (teamNamed ''T1'' ''Hawai'i Fridays''))
      = Some (teamNamed ''T1'' ''Hawai'i Fridays'')"
    by simp
  have "SubLeague.ID (subLeagueNamed ''S1'' ''Good'') = SubLeague.ID (subLeagueNamed ''S1'' ''Evil'')"
    by (simp add: subLeagueNamed_def)
  with sl W [THEN conjunct2, THEN conjunct1, rule_format, of "[]" _ "[]" _ "[]"]
  have 2: "subLeaguesMap s' (SubLeague.ID (subLeagueNamed ''S1'' ''Evil''))
      = Some (subLeagueNamed ''S1'' ''Evil'')"
    by simp
  have "Division.ID (divisionNamed ''D1'' ''Lawful Good'') = Division.ID (divisionNamed ''D1'' ''Chaotic Good'')"
    by (simp add: divisionNamed_def)
  with dv W [THEN conjunct2, THEN conjunct2, THEN conjunct1, rule_format, of "[]" _ "[]" _ "[]"]
  have 3: "divisionsMap s' (Division.ID (divisionNamed ''D1'' ''Chaotic Good''))
      = Some (divisionNamed ''D1'' ''Chaotic Good'')"
    by simp
  have "League.ID (leagueNamed ''L1'' ''Internet League Blaseball'') = League.ID (leagueNamed ''L1'' ''ILB'')"
    by (simp add: leagueNamed_def)
  with lg W [THEN conjunct2, THEN conjunct2, THEN conjunct2, rule_format, of "[]" _ "[]" _ "[]"]
  have 4: "leaguesMap s' (League.ID (leagueNamed ''L1'' ''ILB''))
      = Some (leagueNamed ''L1'' ''ILB'')"
    by simp
  from m 1 2 3 4 show ?thesis
    by (simp add: teamNamed_def subLeagueNamed_def divisionNamed_def leagueNamed_def)
qed

end
